theory Spec2Isabelle
  imports Main "HOL-Library.AList"
begin

section \<open>Python values\<close>

text \<open>
  The client passes dynamically typed values around: request bodies, decoded JSON
  responses, keyword arguments. They are modelled by one datatype. A Python \<open>str\<close>
  is a \<open>string\<close> whose characters stand for the code points U+0000 to U+00FF; a
  \<open>dict\<close> is an association list in insertion order (its keys are strings and,
  for a well-formed dictionary, distinct). Floating-point numbers are left out.
\<close>

datatype pyval =
    PNone
  | PBool bool
  | PInt int
  | PStr string
  | PList "pyval list"
  | PDict "(string \<times> pyval) list"

datatype error =
    KarcherHomeException int string
  | KarcherHomeAccessDenied string
  | KeyError string
  | TypeError
  | AttributeError
  | OtherError string

text \<open>Sequencing of fallible steps: the first raised exception ends the computation.\<close>

definition and_then :: "error + 'a \<Rightarrow> ('a \<Rightarrow> error + 'b) \<Rightarrow> error + 'b" where
  "and_then r f = (case r of Inl e \<Rightarrow> Inl e | Inr v \<Rightarrow> f v)"

subsection \<open>\<open>str\<close> of an integer\<close>

text \<open>The digit \<open>d\<close>, for \<open>d < 10\<close>.\<close>

definition digit_char :: "nat \<Rightarrow> char" where
  "digit_char d = ''0123456789'' ! d"

function str_nat :: "nat \<Rightarrow> string" where
  "str_nat n = (if n < 10 then [digit_char n] else str_nat (n div 10) @ [digit_char (n mod 10)])"
  by pat_completeness auto
termination
  by (relation "measure id") auto

declare str_nat.simps [simp del]

definition str_int :: "int \<Rightarrow> string" where
  "str_int i = (if i < 0 then CHR ''-'' # str_nat (nat (- i)) else str_nat (nat i))"

subsection \<open>Truthiness, comparison with a number, subscripting\<close>

text \<open>\<open>x or {}\<close> keeps \<open>x\<close> when it is truthy.\<close>

fun truthy :: "pyval \<Rightarrow> bool" where
  "truthy PNone = False"
| "truthy (PBool b) = b"
| "truthy (PInt i) = (i \<noteq> 0)"
| "truthy (PStr s) = (s \<noteq> [])"
| "truthy (PList xs) = (xs \<noteq> [])"
| "truthy (PDict kvs) = (kvs \<noteq> [])"

text \<open>\<open>v != 0\<close>: a bool compares as the integer 0 or 1, anything else differs from 0.\<close>

fun ne_zero :: "pyval \<Rightarrow> bool" where
  "ne_zero (PInt i) = (i \<noteq> 0)"
| "ne_zero (PBool b) = b"
| "ne_zero _ = True"

text \<open>\<open>v[key]\<close> with a string key: only a dict can be subscripted that way.\<close>

fun getitem :: "pyval \<Rightarrow> string \<Rightarrow> error + pyval" where
  "getitem (PDict kvs) k = (case map_of kvs k of None \<Rightarrow> Inl (KeyError k) | Some v \<Rightarrow> Inr v)"
| "getitem _ k = Inl TypeError"

text \<open>\<open>key in d\<close> for a dict \<open>d\<close>.\<close>

definition has_key :: "(string \<times> pyval) list \<Rightarrow> string \<Rightarrow> bool" where
  "has_key kvs k = (map_of kvs k \<noteq> None)"

subsection \<open>\<open>json.dumps(val, separators=(',', ':'))\<close>\<close>

text \<open>The hexadecimal digit \<open>d\<close>, for \<open>d < 16\<close>, in lower and in upper case.\<close>

definition hex_digit :: "nat \<Rightarrow> char" where
  "hex_digit d = ''0123456789abcdef'' ! d"

definition HEX_digit :: "nat \<Rightarrow> char" where
  "HEX_digit d = ''0123456789ABCDEF'' ! d"

text \<open>
  The encoder escapes the quote, the backslash and every character outside the range
  from space to tilde (\<open>ensure_ascii\<close> is on by default).
\<close>

definition json_escape_char :: "char \<Rightarrow> string" where
  "json_escape_char c =
     (let n = (of_char c :: nat) in
      if n = 34 then [CHR 0x5C, CHR 0x22]
      else if n = 92 then [CHR 0x5C, CHR 0x5C]
      else if n = 10 then [CHR 0x5C, CHR ''n'']
      else if n = 13 then [CHR 0x5C, CHR ''r'']
      else if n = 9 then [CHR 0x5C, CHR ''t'']
      else if n = 8 then [CHR 0x5C, CHR ''b'']
      else if n = 12 then [CHR 0x5C, CHR ''f'']
      else if 32 \<le> n \<and> n \<le> 126 then [c]
      else [CHR 0x5C, CHR ''u'', CHR ''0'', CHR ''0'', hex_digit (n div 16), hex_digit (n mod 16)])"

definition json_string :: "string \<Rightarrow> string" where
  "json_string s = [CHR 0x22] @ concat (map json_escape_char s) @ [CHR 0x22]"

text \<open>\<open>sep.join(parts)\<close>\<close>

fun join :: "string \<Rightarrow> string list \<Rightarrow> string" where
  "join sep [] = []"
| "join sep [x] = x"
| "join sep (x # y # ys) = x @ sep @ join sep (y # ys)"

fun json_dumps :: "pyval \<Rightarrow> string"
  and json_dumps_items :: "pyval list \<Rightarrow> string list"
  and json_dumps_fields :: "(string \<times> pyval) list \<Rightarrow> string list" where
  "json_dumps PNone = ''null''"
| "json_dumps (PBool b) = (if b then ''true'' else ''false'')"
| "json_dumps (PInt i) = str_int i"
| "json_dumps (PStr s) = json_string s"
| "json_dumps (PList xs) = ''['' @ join '','' (json_dumps_items xs) @ '']''"
| "json_dumps (PDict kvs) = ''{'' @ join '','' (json_dumps_fields kvs) @ ''}''"
| "json_dumps_items [] = []"
| "json_dumps_items (x # xs) = json_dumps x # json_dumps_items xs"
| "json_dumps_fields [] = []"
| "json_dumps_fields ((k, v) # kvs) = (json_string k @ '':'' @ json_dumps v) # json_dumps_fields kvs"

subsection \<open>\<open>str(val)\<close> and \<open>repr(val)\<close>\<close>

text \<open>
  \<open>repr\<close> of a string chooses double quotes when the string holds a single quote and
  no double quote, and escapes the delimiter, the backslash and what is not printable.
\<close>

definition repr_quote :: "string \<Rightarrow> char" where
  "repr_quote s = (if CHR 0x27 \<in> set s \<and> CHR 0x22 \<notin> set s then CHR 0x22 else CHR 0x27)"

definition repr_char :: "char \<Rightarrow> char \<Rightarrow> string" where
  "repr_char q c =
     (let n = (of_char c :: nat) in
      if c = q \<or> n = 92 then [CHR 0x5C, c]
      else if n = 9 then [CHR 0x5C, CHR ''t'']
      else if n = 10 then [CHR 0x5C, CHR ''n'']
      else if n = 13 then [CHR 0x5C, CHR ''r'']
      else if n < 32 \<or> (127 \<le> n \<and> n \<le> 160) \<or> n = 173
        then [CHR 0x5C, CHR ''x'', hex_digit (n div 16), hex_digit (n mod 16)]
      else [c])"

definition repr_str :: "string \<Rightarrow> string" where
  "repr_str s = (let q = repr_quote s in [q] @ concat (map (repr_char q) s) @ [q])"

fun py_repr :: "pyval \<Rightarrow> string"
  and py_repr_items :: "pyval list \<Rightarrow> string list"
  and py_repr_fields :: "(string \<times> pyval) list \<Rightarrow> string list" where
  "py_repr PNone = ''None''"
| "py_repr (PBool b) = (if b then ''True'' else ''False'')"
| "py_repr (PInt i) = str_int i"
| "py_repr (PStr s) = repr_str s"
| "py_repr (PList xs) = ''['' @ join '', '' (py_repr_items xs) @ '']''"
| "py_repr (PDict kvs) = ''{'' @ join '', '' (py_repr_fields kvs) @ ''}''"
| "py_repr_items [] = []"
| "py_repr_items (x # xs) = py_repr x # py_repr_items xs"
| "py_repr_fields [] = []"
| "py_repr_fields ((k, v) # kvs) = (repr_str k @ '': '' @ py_repr v) # py_repr_fields kvs"

definition py_str :: "pyval \<Rightarrow> string" where
  "py_str v = (case v of PStr s \<Rightarrow> s | _ \<Rightarrow> py_repr v)"

subsection \<open>\<open>urllib.parse.urlencode\<close> of a dict\<close>

definition always_safe :: "char \<Rightarrow> bool" where
  "always_safe c =
     (let n = (of_char c :: nat) in
      (65 \<le> n \<and> n \<le> 90) \<or> (97 \<le> n \<and> n \<le> 122) \<or> (48 \<le> n \<and> n \<le> 57)
      \<or> c = CHR ''_'' \<or> c = CHR ''.'' \<or> c = CHR ''-'' \<or> c = CHR ''~'')"

definition percent_byte :: "nat \<Rightarrow> string" where
  "percent_byte b = [CHR ''%'', HEX_digit (b div 16), HEX_digit (b mod 16)]"

text \<open>One character of \<open>quote_plus\<close>: the character is encoded as UTF-8 first.\<close>

definition quote_plus_char :: "char \<Rightarrow> string" where
  "quote_plus_char c =
     (let n = (of_char c :: nat) in
      if always_safe c then [c]
      else if c = CHR '' '' then ''+''
      else if n < 128 then percent_byte n
      else percent_byte (192 + n div 64) @ percent_byte (128 + n mod 64))"

definition quote_plus :: "string \<Rightarrow> string" where
  "quote_plus s = concat (map quote_plus_char s)"

definition urlencode :: "(string \<times> pyval) list \<Rightarrow> string" where
  "urlencode query = join ''&'' (map (\<lambda>(k, v). quote_plus k @ ''='' @ quote_plus (py_str v)) query)"

section \<open>Data of the client\<close>

text \<open>
  Modelled from the spec: the class \<open>Session\<close> of \<open>auth.py\<close>, which holds an opaque
  auth token, a user identifier, a country code and a client-generated registration id.
\<close>

record session =
  auth_token :: string
  user_id :: string
  country_code :: string
  register_id :: string

text \<open>Modelled from the spec: \<open>Session.reset\<close> of \<open>auth.py\<close> resets the session to empty.\<close>

definition reset :: "session \<Rightarrow> session" where
  "reset s = \<lparr>auth_token = [], user_id = [], country_code = [], register_id = []\<rparr>"

text \<open>Modelled from the spec: \<open>Session.get_country_code\<close> of \<open>auth.py\<close> reads the country code.\<close>

definition get_country_code :: "session \<Rightarrow> pyval" where
  "get_country_code s = PStr (country_code s)"

text \<open>
  Modelled from the spec: the class \<open>Device\<close> of \<open>device.py\<close>, the identity of a device:
  serial number, MAC address, product id and product mode code.
\<close>

record device =
  sn :: string
  mac :: string
  product_id :: string
  product_mode_code :: string

text \<open>The keyword arguments \<open>_request\<close> reads, the request it hands to the transport.\<close>

record kwargs =
  kw_headers :: "(string \<times> string) list option"
  kw_params :: "pyval option"
  kw_json :: "pyval option"

definition no_kwargs :: kwargs where
  "no_kwargs = \<lparr>kw_headers = None, kw_params = None, kw_json = None\<rparr>"

record http_request =
  rq_method :: string
  rq_url :: string
  rq_headers :: "(string \<times> string) list"
  rq_params :: "pyval option"
  rq_json :: "pyval option"

text \<open>
  A transport response: the HTTP status, what \<open>resp.json()\<close> returns or raises, and
  the raw content.
\<close>

record response =
  status_code :: int
  json_body :: "error + pyval"
  content :: string

text \<open>The network as the client sees it: the requests and the downloads issued so far.\<close>

record world =
  sent :: "http_request list"
  downloaded :: "pyval list"

text \<open>
  What the client takes from outside \<open>karcher.py\<close>: the constants of \<open>consts.py\<close>, the
  helpers of \<open>utils.py\<close>, \<open>exception.py\<close>, \<open>auth.py\<close>, \<open>device.py\<close> and \<open>map.py\<close>,
  \<open>json.loads\<close>, the query-string round trip of \<open>urllib.parse\<close> for textual
  parameters, and the transport. \<open>handle_error_code\<close> returns the exception it raises,
  or \<open>None\<close> when it returns. \<open>'fm\<close> is the type of a decoded floor map.
\<close>

record 'fm env =
  TENANT_ID :: string
  PROJECT_TYPE :: pyval
  APP_VERSION_CODE :: pyval
  APP_VERSION_NAME :: pyval
  md5 :: "string \<Rightarrow> string"
  encrypt :: "string \<Rightarrow> string"
  decrypt :: "pyval \<Rightarrow> error + string"
  decrypt_map :: "string \<Rightarrow> string \<Rightarrow> string \<Rightarrow> string \<Rightarrow> error + string"
  is_email :: "string \<Rightarrow> bool"
  get_nonce :: string
  get_timestamp :: int
  get_random_string :: "nat \<Rightarrow> string"
  handle_error_code :: "pyval \<Rightarrow> pyval \<Rightarrow> error option"
  json_loads :: "string \<Rightarrow> error + pyval"
  parse_qs_urlencode :: "string \<Rightarrow> error + string"
  Map_parse :: "string \<Rightarrow> error + 'fm"
  new_Session :: "pyval \<Rightarrow> error + session"
  new_Device :: "pyval \<Rightarrow> error + device"
  transport :: "http_request \<Rightarrow> error + response"
  fetch :: "pyval \<Rightarrow> error + response"

text \<open>The fields of a \<open>KarcherHome\<close> object.\<close>

record client =
  base_url :: string
  language :: string

section \<open>The signed request: \<open>KarcherHome._request\<close>\<close>

text \<open>\<open>kwargs.get(name) or {}\<close>\<close>

definition or_empty_dict :: "pyval option \<Rightarrow> pyval" where
  "or_empty_dict a = (case a of None \<Rightarrow> PDict [] | Some v \<Rightarrow> if truthy v then v else PDict [])"

text \<open>
  The \<open>GET\<close> branch: textual parameters go through \<open>parse_qs\<close>, and the result is
  URL-encoded. Without tuples in the model, a parameter value that is neither a string
  nor a dict is one \<open>urlencode\<close> rejects.
\<close>

definition get_query :: "'fm env \<Rightarrow> pyval option \<Rightarrow> error + string" where
  "get_query env a =
     (case or_empty_dict a of
        PStr s \<Rightarrow> parse_qs_urlencode env s
      | PDict kvs \<Rightarrow> Inr (urlencode kvs)
      | _ \<Rightarrow> Inl TypeError)"

text \<open>The \<open>POST\<close>/\<open>PUT\<close> branch: what one value adds to \<open>data\<close>, and the loop over the items.\<close>

definition sign_value :: "string \<Rightarrow> pyval \<Rightarrow> string" where
  "sign_value data val =
     (if val = PNone then data @ ''null''
      else case val of
        PStr s \<Rightarrow> data @ s
      | PDict d \<Rightarrow> data @ json_dumps val
      | _ \<Rightarrow> data @ py_str val)"

fun sign_fields :: "string \<Rightarrow> (string \<times> pyval) list \<Rightarrow> string" where
  "sign_fields data [] = data"
| "sign_fields data ((key, val) # rest) = sign_fields (sign_value (data @ key) val) rest"

text \<open>
  The signed string \<open>data\<close> together with the \<open>params\<close> and \<open>json\<close> arguments as they
  are after the branch on the method.
\<close>

definition sign_data :: "'fm env \<Rightarrow> string \<Rightarrow> kwargs \<Rightarrow> error + (string \<times> pyval option \<times> pyval option)" where
  "sign_data env method kw =
     (if method = ''GET'' then
        and_then (get_query env (kw_params kw)) (\<lambda>buf. Inr (buf, Some (PStr buf), kw_json kw))
      else if method = ''POST'' \<or> method = ''PUT'' then
        (case or_empty_dict (kw_json kw) of
           PDict kvs \<Rightarrow> Inr (sign_fields [] kvs, kw_params kw, Some (PDict kvs))
         | _ \<Rightarrow> Inr ([], kw_params kw, kw_json kw))
      else Inr ([], kw_params kw, kw_json kw))"

definition auth_of :: "session option \<Rightarrow> string" where
  "auth_of sess = (case sess of None \<Rightarrow> [] | Some s \<Rightarrow> if auth_token s \<noteq> [] then auth_token s else [])"

text \<open>The headers set before the signature is computed.\<close>

definition base_headers :: "'fm env \<Rightarrow> session option \<Rightarrow> kwargs \<Rightarrow> (string \<times> string) list" where
  "base_headers env sess kw =
     (let h0 = (case kw_headers kw of None \<Rightarrow> [] | Some h \<Rightarrow> h);
          h1 = AList.update ''User-Agent'' (''Android_'' @ TENANT_ID env) h0;
          h2 = (case sess of None \<Rightarrow> h1
                | Some s \<Rightarrow> if auth_token s \<noteq> [] then AList.update ''authorization'' (auth_token s) h1 else h1);
          h3 = (case sess of None \<Rightarrow> h2
                | Some s \<Rightarrow> if user_id s \<noteq> [] then AList.update ''id'' (user_id s) h2 else h2)
      in AList.update ''tenantId'' (TENANT_ID env) h3)"

definition signature :: "'fm env \<Rightarrow> session option \<Rightarrow> string \<Rightarrow> string" where
  "signature env sess data = md5 env (auth_of sess @ str_int (get_timestamp env) @ get_nonce env @ data)"

definition build_request ::
  "'fm env \<Rightarrow> client \<Rightarrow> session option \<Rightarrow> string \<Rightarrow> string \<Rightarrow> kwargs \<Rightarrow> error + http_request" where
  "build_request env self sess method url kw =
     and_then (sign_data env method kw) (\<lambda>(data, params, json).
       Inr \<lparr>rq_method = method,
            rq_url = base_url self @ url,
            rq_headers =
              AList.update ''nonce'' (get_nonce env)
                (AList.update ''ts'' (str_int (get_timestamp env))
                  (AList.update ''sign'' (signature env sess data) (base_headers env sess kw))),
            rq_params = params,
            rq_json = json\<rparr>)"

text \<open>
  \<open>_request\<close>: an exception raised while the request is prepared leaves the network
  untouched; otherwise the request is handed to the transport, which answers or raises.
\<close>

definition request ::
  "'fm env \<Rightarrow> client \<Rightarrow> session option \<Rightarrow> string \<Rightarrow> string \<Rightarrow> kwargs \<Rightarrow> world
     \<Rightarrow> (error + response) \<times> world" where
  "request env self sess method url kw w =
     (case build_request env self sess method url kw of
        Inl e \<Rightarrow> (Inl e, w)
      | Inr rq \<Rightarrow> (transport env rq, w\<lparr>sent := sent w @ [rq]\<rparr>))"

section \<open>\<open>KarcherHome._download\<close>\<close>

definition http_error :: "int \<Rightarrow> error" where
  "http_error code = KarcherHomeException (- 1) (''HTTP error: '' @ str_int code)"

definition download :: "'fm env \<Rightarrow> pyval \<Rightarrow> world \<Rightarrow> (error + string) \<times> world" where
  "download env url w =
     (and_then (fetch env url) (\<lambda>resp.
        if status_code resp \<noteq> 200 then Inl (http_error (status_code resp)) else Inr (content resp)),
      w\<lparr>downloaded := downloaded w @ [url]\<rparr>)"

section \<open>Decoding the envelope: \<open>KarcherHome._process_response\<close>\<close>

definition check_code :: "'fm env \<Rightarrow> pyval \<Rightarrow> error + unit" where
  "check_code env data =
     and_then (getitem data ''code'') (\<lambda>code.
       if ne_zero code then
         and_then (getitem data ''msg'') (\<lambda>msg.
           case handle_error_code env code msg of Some e \<Rightarrow> Inl e | None \<Rightarrow> Inr ())
       else Inr ())"

definition unwrap_result :: "'fm env \<Rightarrow> pyval \<Rightarrow> string option \<Rightarrow> error + pyval" where
  "unwrap_result env result prop =
     (case result of
        PStr s \<Rightarrow> Inl (KarcherHomeException (- 2) (''Invalid response: '' @ s))
      | _ \<Rightarrow>
        (case prop of
           None \<Rightarrow> Inr result
         | Some p \<Rightarrow>
             and_then (getitem result p) (\<lambda>c.
               and_then (decrypt env c) (json_loads env))))"

definition process_response :: "'fm env \<Rightarrow> response \<Rightarrow> string option \<Rightarrow> error + pyval" where
  "process_response env resp prop =
     (if status_code resp \<noteq> 200 then Inl (http_error (status_code resp))
      else
        and_then (json_body resp) (\<lambda>data.
          and_then (check_code env data) (\<lambda>_.
            case data of \<comment> \<open>\<open>data['code']\<close> succeeded, so \<open>data\<close> is a dict\<close>
              PDict kvs \<Rightarrow>
                (if \<not> has_key kvs ''result'' then Inr PNone
                 else and_then (getitem data ''result'') (\<lambda>result. unwrap_result env result prop))
            | _ \<Rightarrow> Inl TypeError)))"

section \<open>The operations\<close>

text \<open>
  Each operation takes the network and returns it with its result; \<open>logout\<close> also
  returns the session object, which it mutates. A session argument may be \<open>None\<close>.
\<close>

definition unauthorized :: "session option \<Rightarrow> bool" where
  "unauthorized sess = (case sess of None \<Rightarrow> True | Some s \<Rightarrow> auth_token s = [] \<or> user_id s = [])"

subsection \<open>\<open>login\<close>\<close>

definition login_username :: "'fm env \<Rightarrow> string \<Rightarrow> string" where
  "login_username env username = (if \<not> is_email env username then ''86-'' @ username else username)"

definition login_register_id :: "'fm env \<Rightarrow> string option \<Rightarrow> string" where
  "login_register_id env rid =
     (case rid of None \<Rightarrow> get_random_string env 19
      | Some r \<Rightarrow> if r = [] then get_random_string env 19 else r)"

definition login_body :: "'fm env \<Rightarrow> client \<Rightarrow> string \<Rightarrow> string \<Rightarrow> string \<Rightarrow> pyval" where
  "login_body env self username password rid =
     PDict [
       (''tenantId'', PStr (TENANT_ID env)),
       (''lang'', PStr (language self)),
       (''token'', PNone),
       (''userId'', PNone),
       (''password'', PStr (encrypt env password)),
       (''username'', PStr (encrypt env username)),
       (''authcode'', PNone),
       (''projectType'', PROJECT_TYPE env),
       (''versionCode'', APP_VERSION_CODE env),
       (''versionName'', APP_VERSION_NAME env),
       (''phoneBrand'', PStr (encrypt env ''xiaomi_mi 9'')),
       (''phoneSys'', PInt 1),
       (''noticeSetting'', PDict [(''andIpad'', PStr rid), (''android'', PStr rid)])]"

definition login ::
  "'fm env \<Rightarrow> client \<Rightarrow> string \<Rightarrow> string \<Rightarrow> string option \<Rightarrow> world \<Rightarrow> (error + session) \<times> world" where
  "login env self username password rid w =
     (let rid' = login_register_id env rid;
          username' = login_username env username
      in case request env self None ''POST'' ''/user-center/auth/login''
                (no_kwargs\<lparr>kw_json := Some (login_body env self username' password rid')\<rparr>) w of
           (r, w') \<Rightarrow>
             (and_then r (\<lambda>resp.
                and_then (process_response env resp None) (\<lambda>d.
                  and_then (new_Session env d) (\<lambda>sess. Inr (sess\<lparr>register_id := rid'\<rparr>)))),
              w'))"

subsection \<open>\<open>logout\<close>\<close>

definition logout ::
  "'fm env \<Rightarrow> client \<Rightarrow> session option \<Rightarrow> world \<Rightarrow> (error + unit) \<times> session option \<times> world" where
  "logout env self sess w =
     (case sess of
        None \<Rightarrow> (Inl AttributeError, None, w)
      | Some s \<Rightarrow>
          if auth_token s = [] \<or> user_id s = [] then (Inr (), Some (reset s), w)
          else
            (case request env self sess ''POST'' ''/user-center/auth/logout'' no_kwargs w of
               (r, w') \<Rightarrow>
                 (case and_then r (\<lambda>resp. process_response env resp None) of
                    Inl e \<Rightarrow> (Inl e, Some s, w')
                  | Inr _ \<Rightarrow> (Inr (), Some (reset s), w'))))"

subsection \<open>\<open>get_devices\<close>, \<open>get_families\<close>, \<open>get_consumables\<close>\<close>

fun new_Devices :: "'fm env \<Rightarrow> pyval list \<Rightarrow> error + device list" where
  "new_Devices env [] = Inr []"
| "new_Devices env (d # ds) =
     and_then (new_Device env d) (\<lambda>dev.
       and_then (new_Devices env ds) (\<lambda>devs. Inr (dev # devs)))"

text \<open>
  \<open>[Device(**d) for d in result]\<close>: a list gives its items, a dict its keys (strings,
  which \<open>**\<close> rejects), and nothing else in the model can be iterated.
\<close>

definition devices_of :: "'fm env \<Rightarrow> pyval \<Rightarrow> error + device list" where
  "devices_of env result =
     (case result of
        PList ds \<Rightarrow> new_Devices env ds
      | PDict kvs \<Rightarrow> if kvs = [] then Inr [] else Inl TypeError
      | _ \<Rightarrow> Inl TypeError)"

definition not_authorized :: error where
  "not_authorized = KarcherHomeAccessDenied ''Not authorized''"

definition get_devices ::
  "'fm env \<Rightarrow> client \<Rightarrow> session option \<Rightarrow> world \<Rightarrow> (error + device list) \<times> world" where
  "get_devices env self sess w =
     (case sess of
        None \<Rightarrow> (Inl not_authorized, w)
      | Some s \<Rightarrow>
          if auth_token s = [] \<or> user_id s = [] then (Inl not_authorized, w)
          else
            (case request env self sess ''GET''
                    (''/smart-home-service/smartHome/user/getDeviceInfoByUserId/'' @ user_id s) no_kwargs w of
               (r, w') \<Rightarrow>
                 (and_then r (\<lambda>resp.
                    and_then (process_response env resp None) (devices_of env)), w')))"

definition get_families ::
  "'fm env \<Rightarrow> client \<Rightarrow> session option \<Rightarrow> world \<Rightarrow> (error + pyval) \<times> world" where
  "get_families env self sess w =
     (case sess of
        None \<Rightarrow> (Inl not_authorized, w)
      | Some s \<Rightarrow>
          if auth_token s = [] \<or> user_id s = [] then (Inl not_authorized, w)
          else
            (case request env self sess ''GET''
                    (''/smart-home-service/smartHome/familyInfo/list/'' @ user_id s) no_kwargs w of
               (r, w') \<Rightarrow> (and_then r (\<lambda>resp. process_response env resp None), w')))"

definition get_consumables ::
  "'fm env \<Rightarrow> client \<Rightarrow> session option \<Rightarrow> string \<Rightarrow> world \<Rightarrow> (error + pyval) \<times> world" where
  "get_consumables env self sess familyID w =
     (case sess of
        None \<Rightarrow> (Inl not_authorized, w)
      | Some s \<Rightarrow>
          if auth_token s = [] \<or> user_id s = [] then (Inl not_authorized, w)
          else
            (case request env self sess ''GET''
                    (''/smart-home-service/smartHome/consumablesInfo/getConsumablesInfoByFamilyId/'' @ familyID)
                    no_kwargs w of
               (r, w') \<Rightarrow> (and_then r (\<lambda>resp. process_response env resp None), w')))"

subsection \<open>\<open>get_map_data\<close>\<close>

datatype 'fm map_data = FloorMap 'fm | JsonData pyval

definition mapDir :: "'fm env \<Rightarrow> device \<Rightarrow> int \<Rightarrow> string" where
  "mapDir env dev m =
     TENANT_ID env @ ''/'' @ product_mode_code dev @ ''/'' @ sn dev
       @ ''/01-01-2022/map/temp/0046690461_'' @ sn dev @ ''_'' @ str_int m"

definition access_body :: "'fm env \<Rightarrow> session \<Rightarrow> device \<Rightarrow> int \<Rightarrow> pyval" where
  "access_body env s dev m =
     PDict [
       (''dir'', PStr (mapDir env dev m)),
       (''countryCode'', get_country_code s),
       (''serviceType'', PInt 2),
       (''tenantId'', PStr (TENANT_ID env))]"

text \<open>
  The download URL resolved from the decoded access response \<open>d\<close>. In
  \<open>'https://' + d['cdnDomain'] + '/' + d['dir']\<close> the first sum is evaluated before
  \<open>d['dir']\<close> is looked up, and only strings can be added to a string.
\<close>

definition download_url :: "pyval \<Rightarrow> error + pyval" where
  "download_url d =
     and_then (getitem d ''url'') (\<lambda>url.
       case d of \<comment> \<open>\<open>d['url']\<close> succeeded, so \<open>d\<close> is a dict\<close>
         PDict kvs \<Rightarrow>
           (case map_of kvs ''cdnDomain'' of
              None \<Rightarrow> Inr url
            | Some cdn \<Rightarrow>
                if cdn \<noteq> PStr [] then
                  (case cdn of
                     PStr c \<Rightarrow>
                       and_then (getitem d ''dir'') (\<lambda>dir.
                         case dir of
                           PStr p \<Rightarrow> Inr (PStr (''https://'' @ c @ ''/'' @ p))
                         | _ \<Rightarrow> Inl TypeError)
                   | _ \<Rightarrow> Inl TypeError)
                else Inr url)
       | _ \<Rightarrow> Inl TypeError)"

text \<open>The fork on the channel index, applied to the decrypted bytes.\<close>

definition decode_map :: "'fm env \<Rightarrow> int \<Rightarrow> string \<Rightarrow> error + 'fm map_data" where
  "decode_map env m data =
     (if m = 1 \<or> m = 2 then and_then (Map_parse env data) (\<lambda>fm. Inr (FloorMap fm))
      else and_then (json_loads env data) (\<lambda>v. Inr (JsonData v)))"

definition fetch_map :: "'fm env \<Rightarrow> device \<Rightarrow> int \<Rightarrow> pyval \<Rightarrow> world \<Rightarrow> (error + 'fm map_data) \<times> world" where
  "fetch_map env dev m url w =
     (case download env url w of
        (r, w') \<Rightarrow>
          (and_then r (\<lambda>d.
             and_then (decrypt_map env (sn dev) (mac dev) (product_id dev) d) (decode_map env m)), w'))"

definition get_map_data ::
  "'fm env \<Rightarrow> client \<Rightarrow> session option \<Rightarrow> device \<Rightarrow> int \<Rightarrow> world \<Rightarrow> (error + 'fm map_data) \<times> world" where
  "get_map_data env self sess dev m w =
     (case sess of
        None \<Rightarrow> (Inl AttributeError, w) \<comment> \<open>\<open>sess.get_country_code()\<close> on \<open>None\<close>\<close>
      | Some s \<Rightarrow>
          (case request env self sess ''POST'' ''/storage-management/storage/aws/getAccessUrl''
                  (no_kwargs\<lparr>kw_json := Some (access_body env s dev m)\<rparr>) w of
             (r, w') \<Rightarrow>
               (case and_then r (\<lambda>resp.
                       and_then (process_response env resp None) download_url) of
                  Inl e \<Rightarrow> (Inl e, w')
                | Inr url \<Rightarrow> fetch_map env dev m url w')))"

section \<open>The canonical body in the words of the specification\<close>

text \<open>
  The specification describes the signed body of a \<open>POST\<close> or \<open>PUT\<close> request as the
  concatenation, in insertion order, of each field name followed by its rendered value:
  \<open>null\<close> for an absent value, the raw string for a textual one, compact JSON for a
  structured one, the string form otherwise. These two definitions follow those words;
  \<open>sign_fields\<close> above follows the loop of the source.
\<close>

definition spec_render :: "pyval \<Rightarrow> string" where
  "spec_render v =
     (case v of
        PNone \<Rightarrow> ''null''
      | PStr s \<Rightarrow> s
      | PDict d \<Rightarrow> json_dumps v
      | _ \<Rightarrow> py_str v)"

definition spec_canonical_body :: "(string \<times> pyval) list \<Rightarrow> string" where
  "spec_canonical_body kvs = concat (map (\<lambda>(k, v). k @ spec_render v) kvs)"

text \<open>The \<open>sign\<close> header of a prepared request, if the request could be prepared.\<close>

definition sign_of :: "error + http_request \<Rightarrow> string option" where
  "sign_of r = (case r of Inl e \<Rightarrow> None | Inr rq \<Rightarrow> map_of (rq_headers rq) ''sign'')"

text \<open>
  Whitespace characters, and the values that hold a space inside one of their own
  strings (a key or a textual value).
\<close>

definition whitespace :: "char \<Rightarrow> bool" where
  "whitespace c = (c = CHR '' '' \<or> c = CHR 0x09 \<or> c = CHR 0x0A \<or> c = CHR 0x0D)"

fun spaced :: "pyval \<Rightarrow> bool"
  and spaced_items :: "pyval list \<Rightarrow> bool"
  and spaced_fields :: "(string \<times> pyval) list \<Rightarrow> bool" where
  "spaced PNone = False"
| "spaced (PBool b) = False"
| "spaced (PInt i) = False"
| "spaced (PStr s) = (CHR '' '' \<in> set s)"
| "spaced (PList xs) = spaced_items xs"
| "spaced (PDict kvs) = spaced_fields kvs"
| "spaced_items [] = False"
| "spaced_items (x # xs) = (spaced x \<or> spaced_items xs)"
| "spaced_fields [] = False"
| "spaced_fields ((k, v) # kvs) = (CHR '' '' \<in> set k \<or> spaced v \<or> spaced_fields kvs)"

section \<open>An environment for the examples\<close>

text \<open>
  Stand-ins for the collaborators, used where a property is shown at a concrete input.
  The digest is the identity, so that the \<open>sign\<close> header shows the string that is signed;
  the transport answers every request with the same successful envelope.
\<close>

definition ex_response :: response where
  "ex_response =
     \<lparr>status_code = 200,
      json_body = Inr (PDict [(''code'', PInt 0), (''result'', PDict [(''url'', PStr ''https://s/x'')])]),
      content = ''blob''\<rparr>"

definition ex_env :: "nat env" where
  "ex_env =
     \<lparr>TENANT_ID = ''t1'',
      PROJECT_TYPE = PStr ''android'',
      APP_VERSION_CODE = PInt 1,
      APP_VERSION_NAME = PStr ''1.0'',
      md5 = (\<lambda>s. s),
      encrypt = (\<lambda>s. ''enc:'' @ s),
      decrypt = (\<lambda>v. case v of PStr s \<Rightarrow> Inr s | _ \<Rightarrow> Inl TypeError),
      decrypt_map = (\<lambda>sn mac pid d. Inr d),
      is_email = (\<lambda>s. CHR ''@'' \<in> set s),
      get_nonce = ''n0'',
      get_timestamp = 17,
      get_random_string = (\<lambda>n. replicate n CHR ''r''),
      handle_error_code = (\<lambda>code msg. Some (OtherError ''service error'')),
      json_loads = (\<lambda>s. Inr (PDict [(''text'', PStr s)])),
      parse_qs_urlencode = Inr,
      Map_parse = (\<lambda>s. Inr (length s)),
      new_Session = (\<lambda>d. Inl TypeError),
      new_Device = (\<lambda>d. Inl TypeError),
      transport = (\<lambda>rq. Inr ex_response),
      fetch = (\<lambda>url. Inr ex_response)\<rparr>"

definition ex_client :: client where
  "ex_client = \<lparr>base_url = ''https://api'', language = ''en''\<rparr>"

definition ex_world :: world where
  "ex_world = \<lparr>sent = [], downloaded = []\<rparr>"

definition ex_device :: device where
  "ex_device = \<lparr>sn = ''SN1'', mac = ''aa:bb'', product_id = ''p1'', product_mode_code = ''m1''\<rparr>"

definition empty_session :: session where
  "empty_session = \<lparr>auth_token = [], user_id = [], country_code = [], register_id = []\<rparr>"

definition ex_session :: session where
  "ex_session = \<lparr>auth_token = ''tok'', user_id = ''u1'', country_code = ''DE'', register_id = ''r1''\<rparr>"

section \<open>Basic facts\<close>

lemma and_then_Inr [simp]: "and_then (Inr v) f = f v"
  by (simp add: and_then_def)

lemma and_then_Inl [simp]: "and_then (Inl e) f = Inl e"
  by (simp add: and_then_def)

lemma or_empty_dict_None [simp]: "or_empty_dict None = PDict []"
  by (simp add: or_empty_dict_def)

lemma or_empty_dict_nonempty [simp]: "kvs \<noteq> [] \<Longrightarrow> or_empty_dict (Some (PDict kvs)) = PDict kvs"
  by (simp add: or_empty_dict_def)

lemma str_int_17: "str_int 17 = ''17''"
  by (simp add: str_int_def str_nat.simps digit_char_def)

section \<open>The loop of the signer and the specification's concatenation\<close>

lemma sign_value_spec: "sign_value data v = data @ spec_render v"
  by (cases v) (simp_all add: sign_value_def spec_render_def)

lemma sign_fields_spec: "sign_fields data kvs = data @ spec_canonical_body kvs"
  by (induction kvs arbitrary: data) (auto simp add: sign_value_spec spec_canonical_body_def)

lemma spec_canonical_body_append:
  "spec_canonical_body (xs @ ys) = spec_canonical_body xs @ spec_canonical_body ys"
  by (simp add: spec_canonical_body_def)

lemma spec_canonical_body_Cons:
  "spec_canonical_body ((k, v) # kvs) = k @ spec_render v @ spec_canonical_body kvs"
  by (simp add: spec_canonical_body_def)

text \<open>
  Two field orders that agree up to some position and continue with fields whose names
  begin with different characters give different bodies.
\<close>

lemma body_differs_at_first_char:
  assumes "k1 \<noteq> []" "k2 \<noteq> []" "hd k1 \<noteq> hd k2"
  shows "spec_canonical_body (pre @ (k1, v1) # xs) \<noteq> spec_canonical_body (pre @ (k2, v2) # ys)"
proof
  assume "spec_canonical_body (pre @ (k1, v1) # xs) = spec_canonical_body (pre @ (k2, v2) # ys)"
  then have "k1 @ spec_render v1 @ spec_canonical_body xs = k2 @ spec_render v2 @ spec_canonical_body ys"
    by (simp add: spec_canonical_body_append spec_canonical_body_Cons)
  then have "hd (k1 @ spec_render v1 @ spec_canonical_body xs) = hd (k2 @ spec_render v2 @ spec_canonical_body ys)"
    by simp
  with assms show False
    by simp
qed

section \<open>What \<open>_request\<close> signs and sends\<close>

lemma sign_data_POST:
  "sign_data env ''POST'' kw =
     Inr (case or_empty_dict (kw_json kw) of
            PDict kvs \<Rightarrow> (sign_fields [] kvs, kw_params kw, Some (PDict kvs))
          | _ \<Rightarrow> ([], kw_params kw, kw_json kw))"
  by (simp add: sign_data_def split: pyval.splits)

lemma sign_data_PUT:
  "sign_data env ''PUT'' kw =
     Inr (case or_empty_dict (kw_json kw) of
            PDict kvs \<Rightarrow> (sign_fields [] kvs, kw_params kw, Some (PDict kvs))
          | _ \<Rightarrow> ([], kw_params kw, kw_json kw))"
  by (simp add: sign_data_def split: pyval.splits)

lemma sign_of_build_request:
  "sign_of (build_request env self sess method url kw) =
     (case sign_data env method kw of
        Inl e \<Rightarrow> None
      | Inr (data, params, json) \<Rightarrow> Some (signature env sess data))"
  by (auto simp add: sign_of_def build_request_def update_conv' split: sum.splits)

lemma build_request_POST_dict:
  assumes "or_empty_dict (kw_json kw) = PDict kvs"
  shows "build_request env self sess ''POST'' url kw =
     Inr \<lparr>rq_method = ''POST'',
          rq_url = base_url self @ url,
          rq_headers =
            AList.update ''nonce'' (get_nonce env)
              (AList.update ''ts'' (str_int (get_timestamp env))
                (AList.update ''sign'' (signature env sess (sign_fields [] kvs)) (base_headers env sess kw))),
          rq_params = kw_params kw,
          rq_json = Some (PDict kvs)\<rparr>"
  using assms by (simp add: build_request_def sign_data_POST)

text \<open>A \<open>POST\<close> with a dict body is always handed to the transport, and so recorded.\<close>

lemma request_POST_dict:
  assumes "or_empty_dict (kw_json kw) = PDict kvs"
  shows "\<exists>rq. request env self sess ''POST'' url kw w = (transport env rq, w\<lparr>sent := sent w @ [rq]\<rparr>)
           \<and> rq_method rq = ''POST'' \<and> rq_url rq = base_url self @ url
           \<and> rq_json rq = Some (PDict kvs)
           \<and> map_of (rq_headers rq) ''sign'' = Some (signature env sess (sign_fields [] kvs))"
proof -
  let ?rq = "\<lparr>rq_method = ''POST'',
          rq_url = base_url self @ url,
          rq_headers =
            AList.update ''nonce'' (get_nonce env)
              (AList.update ''ts'' (str_int (get_timestamp env))
                (AList.update ''sign'' (signature env sess (sign_fields [] kvs)) (base_headers env sess kw))),
          rq_params = kw_params kw,
          rq_json = Some (PDict kvs)\<rparr>"
  have "request env self sess ''POST'' url kw w = (transport env ?rq, w\<lparr>sent := sent w @ [?rq]\<rparr>)"
    by (simp add: request_def build_request_POST_dict [OF assms])
  moreover have "map_of (rq_headers ?rq) ''sign'' = Some (signature env sess (sign_fields [] kvs))"
    by (simp add: update_conv')
  ultimately show ?thesis
    by (intro exI [of _ ?rq]) simp
qed

lemma get_query_None: "get_query env None = Inr []"
  by (simp add: get_query_def urlencode_def)

lemma get_query_dict: "get_query env (Some (PDict kvs)) = Inr (urlencode kvs)"
  by (cases kvs) (simp_all add: get_query_def or_empty_dict_def urlencode_def)

lemma download_sent [simp]: "sent (snd (download env url w)) = sent w"
  by (simp add: download_def)

lemma fetch_map_sent [simp]: "sent (snd (fetch_map env dev m url w)) = sent w"
  by (simp add: fetch_map_def download_def)

lemma check_code_zero:
  "map_of kvs ''code'' = Some (PInt 0) \<Longrightarrow> check_code env (PDict kvs) = Inr ()"
  by (simp add: check_code_def)

section \<open>The compact JSON encoding inserts no whitespace\<close>

lemma digit_char_mem: "d < 10 \<Longrightarrow> digit_char d \<in> set ''0123456789''"
  unfolding digit_char_def by (rule nth_mem) simp

lemma str_nat_digits: "set (str_nat n) \<subseteq> set ''0123456789''"
proof (induction n rule: str_nat.induct)
  case (1 n)
  show ?case
  proof (cases "n < 10")
    case True
    then show ?thesis
      using digit_char_mem [of n] by (subst str_nat.simps) simp
  next
    case False
    have "n mod 10 < 10" by simp
    then have "digit_char (n mod 10) \<in> set ''0123456789''"
      by (rule digit_char_mem)
    with False "1.IH" show ?thesis
      by (subst str_nat.simps) simp
  qed
qed

lemma str_int_no_whitespace: "c \<in> set (str_int i) \<Longrightarrow> \<not> whitespace c"
  using str_nat_digits [of "nat i"] str_nat_digits [of "nat (- i)"]
  by (auto simp add: str_int_def whitespace_def split: if_splits)

lemma hex_digit_mem: "d < 16 \<Longrightarrow> hex_digit d \<in> set ''0123456789abcdef''"
  unfolding hex_digit_def by (rule nth_mem) simp

lemma hex_digit_no_whitespace: "d < 16 \<Longrightarrow> \<not> whitespace (hex_digit d)"
  using hex_digit_mem [of d] by (auto simp add: whitespace_def)

text \<open>An escaped character holds whitespace only when it is the space itself, kept as it is.\<close>

lemma json_escape_char_whitespace:
  assumes "c' \<in> set (json_escape_char c)" and "whitespace c'"
  shows "c = CHR '' '' \<and> c' = CHR '' ''"
proof -
  have lt: "(of_char c :: nat) div 16 < 16" "(of_char c :: nat) mod 16 < 16"
    using nat_of_char_less_256 [of c] by arith+
  have h: "\<not> whitespace (hex_digit ((of_char c :: nat) div 16))"
    "\<not> whitespace (hex_digit ((of_char c :: nat) mod 16))"
    using lt by (simp_all add: hex_digit_no_whitespace)
  have ws: "(of_char c' :: nat) \<in> {32, 9, 10, 13}"
    using assms(2) by (auto simp add: whitespace_def)
  show ?thesis
  proof (cases "c' = c")
    case True
    have "c \<in> set (json_escape_char c) \<Longrightarrow> (of_char c :: nat) \<in> {32, 9, 10, 13}
        \<Longrightarrow> (of_char c :: nat) = 32"
      using h by (auto simp add: json_escape_char_def Let_def whitespace_def split: if_splits)
    then have "(of_char c :: nat) = 32"
      using assms(1) ws True by blast
    then have "(of_char c :: nat) = of_char CHR '' ''"
      by simp
    then have "c = CHR '' ''"
      by (simp only: of_char_eq_iff)
    with True show ?thesis by simp
  next
    case False
    then have False
      using assms h by (auto simp add: json_escape_char_def Let_def whitespace_def split: if_splits)
    then show ?thesis ..
  qed
qed

lemma json_string_whitespace:
  assumes "c \<in> set (json_string s)" and "whitespace c"
  shows "CHR '' '' \<in> set s"
proof -
  have "\<not> whitespace (CHR 0x22)"
    by (simp add: whitespace_def)
  with assms obtain x where "x \<in> set s" "c \<in> set (json_escape_char x)"
    by (auto simp add: json_string_def)
  with assms(2) show ?thesis
    using json_escape_char_whitespace by blast
qed

lemma set_join: "set (join sep xs) \<subseteq> set sep \<union> \<Union> (set ` set xs)"
  by (induction sep xs rule: join.induct) auto

text \<open>
  Whitespace in the output of \<open>json_dumps\<close> comes from a string of the value: the encoder
  adds none between the items, the keys and the values.
\<close>

lemma json_dumps_whitespace:
  "c \<in> set (json_dumps v) \<Longrightarrow> whitespace c \<Longrightarrow> spaced v"
  "c \<in> \<Union> (set ` set (json_dumps_items xs)) \<Longrightarrow> whitespace c \<Longrightarrow> spaced_items xs"
  "c \<in> \<Union> (set ` set (json_dumps_fields kvs)) \<Longrightarrow> whitespace c \<Longrightarrow> spaced_fields kvs"
proof (induction v and xs and kvs arbitrary: c and c and c
    rule: json_dumps_json_dumps_items_json_dumps_fields.induct)
  case 1
  then show ?case by (auto simp add: whitespace_def)
next
  case (2 b)
  then show ?case by (auto simp add: whitespace_def split: if_splits)
next
  case (3 i)
  then show ?case using str_int_no_whitespace by auto
next
  case (4 s)
  then show ?case using json_string_whitespace by auto
next
  case (5 xs)
  from "5.prems" have "c \<in> set (join '','' (json_dumps_items xs))"
    by (auto simp add: whitespace_def)
  with set_join [of "'',''" "json_dumps_items xs"] "5.prems"(2)
  have "c \<in> \<Union> (set ` set (json_dumps_items xs))"
    by (auto simp add: whitespace_def)
  with "5.IH" "5.prems"(2) show ?case by simp
next
  case (6 kvs)
  from "6.prems" have "c \<in> set (join '','' (json_dumps_fields kvs))"
    by (auto simp add: whitespace_def)
  with set_join [of "'',''" "json_dumps_fields kvs"] "6.prems"(2)
  have "c \<in> \<Union> (set ` set (json_dumps_fields kvs))"
    by (auto simp add: whitespace_def)
  with "6.IH" "6.prems"(2) show ?case by simp
next
  case 7
  then show ?case by simp
next
  case (8 x xs)
  then show ?case by auto
next
  case 9
  then show ?case by simp
next
  case (10 k v kvs)
  from "10.prems" consider "c \<in> set (json_string k)" | "c = CHR '':''" | "c \<in> set (json_dumps v)"
    | "c \<in> \<Union> (set ` set (json_dumps_fields kvs))"
    by auto
  then show ?case
  proof cases
    case 1
    with "10.prems"(2) show ?thesis using json_string_whitespace by auto
  next
    case 2
    with "10.prems"(2) show ?thesis by (simp add: whitespace_def)
  next
    case 3
    with "10.IH"(1) "10.prems"(2) show ?thesis by simp
  next
    case 4
    with "10.IH"(2) "10.prems"(2) show ?thesis by simp
  qed
qed

lemma spec_render_dict_whitespace:
  assumes "c \<in> set (spec_render (PDict d))" and "whitespace c"
  shows "spaced (PDict d)"
proof -
  have "spec_render (PDict d) = json_dumps (PDict d)"
    by (simp add: spec_render_def)
  with assms(1) have "c \<in> set (json_dumps (PDict d))"
    by (simp only:)
  then show ?thesis
    using assms(2) by (rule json_dumps_whitespace(1))
qed

section \<open>The canonical signer\<close>

text \<open>
  Claim C1, as the code has it. For a \<open>GET\<close> request whose query parameters can be
  URL-encoded, the canonical body that enters the signature is the URL-encoded query
  string, the same string that is sent as the query of the request: the signature is
  the digest of auth token, timestamp, nonce and that string. With no parameters the
  string is empty, and the signature is the digest of auth token, timestamp and nonce
  alone; for a dict of parameters it is \<open>urlencode\<close> of the dict.
\<close>

theorem C1_get_signature_covers_query:
  assumes "get_query env (kw_params kw) = Inr buf"
  shows "sign_data env ''GET'' kw = Inr (buf, Some (PStr buf), kw_json kw)
       \<and> sign_of (build_request env self sess ''GET'' url kw)
           = Some (md5 env (auth_of sess @ str_int (get_timestamp env) @ get_nonce env @ buf))
       \<and> (kw_params kw = None \<longrightarrow> buf = [])
       \<and> (\<forall>kvs. kw_params kw = Some (PDict kvs) \<longrightarrow> buf = urlencode kvs)"
proof -
  have d: "sign_data env ''GET'' kw = Inr (buf, Some (PStr buf), kw_json kw)"
    using assms by (simp add: sign_data_def)
  then have s: "sign_of (build_request env self sess ''GET'' url kw)
           = Some (md5 env (auth_of sess @ str_int (get_timestamp env) @ get_nonce env @ buf))"
    by (simp add: sign_of_build_request signature_def)
  have n: "kw_params kw = None \<longrightarrow> buf = []"
    using assms by (auto simp add: get_query_None)
  have k: "\<forall>kvs. kw_params kw = Some (PDict kvs) \<longrightarrow> buf = urlencode kvs"
    using assms by (auto simp add: get_query_dict)
  from d s n k show ?thesis by blast
qed

theorem C1_get_signature_covers_query_witness:
  "sign_of (build_request ex_env ex_client (Some ex_session) ''GET'' ''/x''
       (no_kwargs\<lparr>kw_params := Some (PDict [(''tenantId'', PStr ''t 1''), (''v'', PInt 2)])\<rparr>))
     = Some (md5 ex_env (''tok'' @ ''17'' @ ''n0'' @ ''tenantId=t+1&v=2''))
   \<and> sign_of (build_request ex_env ex_client (Some ex_session) ''GET'' ''/x'' no_kwargs)
     = Some (md5 ex_env (''tok'' @ ''17'' @ ''n0''))"
proof -
  let ?kvs = "[(''tenantId'', PStr ''t 1''), (''v'', PInt 2)]"
  let ?kw = "no_kwargs\<lparr>kw_params := Some (PDict ?kvs)\<rparr>"
  have u: "urlencode ?kvs = ''tenantId=t+1&v=2''"
    by (simp add: urlencode_def quote_plus_def quote_plus_char_def always_safe_def py_str_def
        str_int_def str_nat.simps digit_char_def)
  have h1: "get_query ex_env (kw_params ?kw) = Inr ''tenantId=t+1&v=2''"
    using u by (simp add: get_query_dict)
  have h2: "get_query ex_env (kw_params no_kwargs) = Inr []"
    by (simp add: no_kwargs_def get_query_None)
  have a: "auth_of (Some ex_session) = ''tok''" "str_int (get_timestamp ex_env) = ''17''"
    "get_nonce ex_env = ''n0''"
    by (simp_all add: auth_of_def ex_session_def ex_env_def str_int_17)
  show ?thesis
    using C1_get_signature_covers_query [OF h1, of ex_client "Some ex_session" "''/x''"]
      C1_get_signature_covers_query [OF h2, of ex_client "Some ex_session" "''/x''"]
    by (simp add: a)
qed

text \<open>
  Claim C1 as stated fails. A \<open>GET\<close> with the parameters \<open>{'tenantId': 't 1'}\<close> signs the
  body \<open>tenantId=t+1\<close>, not the empty string, and its signature is not the digest of
  auth token, timestamp and nonce alone (the digest of the example shows its argument).
\<close>

theorem C1_get_query_enters_signature_counterexample:
  "sign_data ex_env ''GET'' (no_kwargs\<lparr>kw_params := Some (PDict [(''tenantId'', PStr ''t 1'')])\<rparr>)
     = Inr (''tenantId=t+1'', Some (PStr ''tenantId=t+1''), None)
   \<and> sign_of (build_request ex_env ex_client None ''GET'' ''/network-service/domains/list''
         (no_kwargs\<lparr>kw_params := Some (PDict [(''tenantId'', PStr ''t 1'')])\<rparr>))
       = Some (md5 ex_env (auth_of None @ str_int (get_timestamp ex_env) @ get_nonce ex_env @ ''tenantId=t+1''))
   \<and> sign_of (build_request ex_env ex_client None ''GET'' ''/network-service/domains/list''
         (no_kwargs\<lparr>kw_params := Some (PDict [(''tenantId'', PStr ''t 1'')])\<rparr>))
       \<noteq> Some (md5 ex_env (auth_of None @ str_int (get_timestamp ex_env) @ get_nonce ex_env))"
  by (simp add: sign_of_build_request sign_data_def get_query_dict urlencode_def quote_plus_def
      quote_plus_char_def always_safe_def py_str_def no_kwargs_def signature_def ex_env_def)

text \<open>
  Claim C2, as the code has it. For a \<open>POST\<close> or \<open>PUT\<close> request whose body is a dict, the
  signed body is the concatenation, in insertion order, of each field name followed by
  its value rendered as the specification says, and the signature is the digest of auth
  token, timestamp, nonce and that body. The JSON rendering of a structured value holds
  no whitespace but the spaces of its own strings. The order matters: two orders that
  first differ at fields whose names begin with different characters give different
  bodies.
\<close>

theorem C2_canonical_post_body:
  assumes "method = ''POST'' \<or> method = ''PUT''"
    and "or_empty_dict (kw_json kw) = PDict kvs"
  shows "sign_data env method kw = Inr (spec_canonical_body kvs, kw_params kw, Some (PDict kvs))
       \<and> sign_of (build_request env self sess method url kw)
           = Some (md5 env (auth_of sess @ str_int (get_timestamp env) @ get_nonce env @ spec_canonical_body kvs))
       \<and> (\<forall>d c. c \<in> set (spec_render (PDict d)) \<and> whitespace c \<longrightarrow> spaced (PDict d))
       \<and> (\<forall>pre k1 v1 xs k2 v2 ys.
             k1 \<noteq> [] \<and> k2 \<noteq> [] \<and> hd k1 \<noteq> hd k2 \<longrightarrow>
             spec_canonical_body (pre @ (k1, v1) # xs) \<noteq> spec_canonical_body (pre @ (k2, v2) # ys))"
proof -
  have d: "sign_data env method kw = Inr (spec_canonical_body kvs, kw_params kw, Some (PDict kvs))"
    using assms by (auto simp add: sign_data_POST sign_data_PUT sign_fields_spec)
  then have s: "sign_of (build_request env self sess method url kw)
           = Some (md5 env (auth_of sess @ str_int (get_timestamp env) @ get_nonce env @ spec_canonical_body kvs))"
    by (simp add: sign_of_build_request signature_def)
  have j: "\<forall>d c. c \<in> set (spec_render (PDict d)) \<and> whitespace c \<longrightarrow> spaced (PDict d)"
    using spec_render_dict_whitespace by blast
  from d s j show ?thesis
    using body_differs_at_first_char by blast
qed

theorem C2_canonical_post_body_witness:
  "sign_data ex_env ''POST''
      (no_kwargs\<lparr>kw_json := Some (PDict [(''token'', PNone), (''lang'', PStr ''en''), (''phoneSys'', PInt 1),
          (''noticeSetting'', PDict [(''android'', PStr ''r 1''), (''n'', PList [PInt 2, PBool True])])])\<rparr>)
     = Inr (''tokennulllangenphoneSys1noticeSetting{'' @ [CHR 0x22] @ ''android'' @ [CHR 0x22] @ '':''
              @ [CHR 0x22] @ ''r 1'' @ [CHR 0x22] @ '','' @ [CHR 0x22] @ ''n'' @ [CHR 0x22] @ '':[2,true]}'',
          None,
          Some (PDict [(''token'', PNone), (''lang'', PStr ''en''), (''phoneSys'', PInt 1),
          (''noticeSetting'', PDict [(''android'', PStr ''r 1''), (''n'', PList [PInt 2, PBool True])])]))
   \<and> spec_canonical_body [(''a'', PStr ''x''), (''b'', PStr ''y'')]
       \<noteq> spec_canonical_body [(''b'', PStr ''y''), (''a'', PStr ''x'')]"
proof -
  let ?kvs = "[(''token'', PNone), (''lang'', PStr ''en''), (''phoneSys'', PInt 1),
          (''noticeSetting'', PDict [(''android'', PStr ''r 1''), (''n'', PList [PInt 2, PBool True])])]"
  let ?kw = "no_kwargs\<lparr>kw_json := Some (PDict ?kvs)\<rparr>"
  have h1: "''POST'' = ''POST'' \<or> ''POST'' = ''PUT''" by simp
  have h2: "or_empty_dict (kw_json ?kw) = PDict ?kvs" by simp
  have b: "spec_canonical_body ?kvs
      = ''tokennulllangenphoneSys1noticeSetting{'' @ [CHR 0x22] @ ''android'' @ [CHR 0x22] @ '':''
              @ [CHR 0x22] @ ''r 1'' @ [CHR 0x22] @ '','' @ [CHR 0x22] @ ''n'' @ [CHR 0x22] @ '':[2,true]}''"
    by (simp add: spec_canonical_body_def spec_render_def py_str_def json_string_def json_escape_char_def
        str_int_def str_nat.simps digit_char_def)
  have h3: "''a'' \<noteq> [] \<and> ''b'' \<noteq> [] \<and> hd ''a'' \<noteq> hd ''b''" by simp
  from C2_canonical_post_body [OF h1 h2, of ex_env ex_client None "''/x''"]
  have "sign_data ex_env ''POST'' ?kw = Inr (spec_canonical_body ?kvs, kw_params ?kw, Some (PDict ?kvs))"
    and "\<forall>pre k1 v1 xs k2 v2 ys.
             k1 \<noteq> [] \<and> k2 \<noteq> [] \<and> hd k1 \<noteq> hd k2 \<longrightarrow>
             spec_canonical_body (pre @ (k1, v1) # xs) \<noteq> spec_canonical_body (pre @ (k2, v2) # ys)"
    by blast+
  then have "sign_data ex_env ''POST'' ?kw = Inr (spec_canonical_body ?kvs, kw_params ?kw, Some (PDict ?kvs))"
    and "spec_canonical_body ([] @ (''a'', PStr ''x'') # [(''b'', PStr ''y'')])
          \<noteq> spec_canonical_body ([] @ (''b'', PStr ''y'') # [(''a'', PStr ''x'')])"
    using h3 by blast+
  then show ?thesis
    unfolding b by (simp add: no_kwargs_def)
qed

text \<open>
  Claim C2 as stated fails in its last part. The bodies \<open>{'a': 'ba', 'ab': 'a'}\<close> and
  \<open>{'ab': 'a', 'a': 'ba'}\<close> hold the same two fields in the two possible orders, and both
  are signed as \<open>abaaba\<close>: this permutation leaves the signature unchanged.
\<close>

theorem C2_permuted_fields_same_signature_counterexample:
  "sign_of (build_request ex_env ex_client None ''POST'' ''/x''
      (no_kwargs\<lparr>kw_json := Some (PDict [(''a'', PStr ''ba''), (''ab'', PStr ''a'')])\<rparr>))
   = sign_of (build_request ex_env ex_client None ''POST'' ''/x''
      (no_kwargs\<lparr>kw_json := Some (PDict [(''ab'', PStr ''a''), (''a'', PStr ''ba'')])\<rparr>))
   \<and> sign_fields [] [(''a'', PStr ''ba''), (''ab'', PStr ''a'')] = ''abaaba''
   \<and> sign_fields [] [(''ab'', PStr ''a''), (''a'', PStr ''ba'')] = ''abaaba''"
  by (simp add: sign_of_build_request sign_data_POST sign_value_def)

text \<open>The same holds whatever the digest, the session and the client are.\<close>

lemma permuted_fields_same_signature:
  "sign_of (build_request env self sess ''POST'' url
      (no_kwargs\<lparr>kw_json := Some (PDict [(''a'', PStr ''ba''), (''ab'', PStr ''a'')])\<rparr>))
   = sign_of (build_request env self sess ''POST'' url
      (no_kwargs\<lparr>kw_json := Some (PDict [(''ab'', PStr ''a''), (''a'', PStr ''ba'')])\<rparr>))"
  by (simp add: sign_of_build_request sign_data_POST sign_value_def)

section \<open>Local rejection of unauthorized sessions\<close>

text \<open>
  Claim C3. When the session is \<open>None\<close>, or its auth token or its user id is empty, each
  of \<open>get_devices\<close>, \<open>get_families\<close> and \<open>get_consumables\<close> fails with
  \<open>KarcherHomeAccessDenied\<close>, and the network is as it was: no request was sent and
  nothing was downloaded.
\<close>

theorem C3_unauthorized_is_rejected_locally:
  assumes "unauthorized sess"
  shows "get_devices env self sess w = (Inl (KarcherHomeAccessDenied ''Not authorized''), w)
       \<and> get_families env self sess w = (Inl (KarcherHomeAccessDenied ''Not authorized''), w)
       \<and> get_consumables env self sess familyID w = (Inl (KarcherHomeAccessDenied ''Not authorized''), w)"
  using assms
  by (auto simp add: unauthorized_def get_devices_def get_families_def get_consumables_def
      not_authorized_def split: option.splits)

theorem C3_unauthorized_is_rejected_locally_witness:
  "unauthorized (Some (ex_session\<lparr>auth_token := []\<rparr>))
   \<and> get_devices ex_env ex_client (Some (ex_session\<lparr>auth_token := []\<rparr>)) ex_world
       = (Inl (KarcherHomeAccessDenied ''Not authorized''), ex_world)
   \<and> get_families ex_env ex_client (Some (ex_session\<lparr>auth_token := []\<rparr>)) ex_world
       = (Inl (KarcherHomeAccessDenied ''Not authorized''), ex_world)
   \<and> get_consumables ex_env ex_client (Some (ex_session\<lparr>auth_token := []\<rparr>)) ''f1'' ex_world
       = (Inl (KarcherHomeAccessDenied ''Not authorized''), ex_world)"
proof -
  have h: "unauthorized (Some (ex_session\<lparr>auth_token := []\<rparr>))"
    by (simp add: unauthorized_def)
  show ?thesis
    using h C3_unauthorized_is_rejected_locally [OF h, of ex_env ex_client ex_world "''f1''"]
    by simp
qed

section \<open>Envelope decoding\<close>

text \<open>
  Claim C6. A response with HTTP status 200 and envelope code 0 whose \<open>result\<close> is a bare
  string makes \<open>_process_response\<close> raise \<open>KarcherHomeException(-2, 'Invalid response: ...')\<close>,
  the malformed-response failure, whether or not a field was requested; the string is
  never returned.
\<close>

theorem C6_bare_string_result_is_malformed:
  assumes "status_code resp = 200"
    and "json_body resp = Inr (PDict kvs)"
    and "map_of kvs ''code'' = Some (PInt 0)"
    and "map_of kvs ''result'' = Some (PStr s)"
  shows "process_response env resp prop = Inl (KarcherHomeException (- 2) (''Invalid response: '' @ s))"
  using assms
  by (simp add: process_response_def check_code_zero has_key_def unwrap_result_def)

theorem C6_bare_string_result_is_malformed_witness:
  "process_response ex_env
     \<lparr>status_code = 200,
      json_body = Inr (PDict [(''code'', PInt 0), (''result'', PStr ''some error text'')]),
      content = []\<rparr> None
   = Inl (KarcherHomeException (- 2) ''Invalid response: some error text'')"
  using C6_bare_string_result_is_malformed
    [of "\<lparr>status_code = 200,
      json_body = Inr (PDict [(''code'', PInt 0), (''result'', PStr ''some error text'')]),
      content = []\<rparr>" "[(''code'', PInt 0), (''result'', PStr ''some error text'')]"
      "''some error text''" ex_env None]
  by simp

text \<open>
  Claim C10. A response with HTTP status 200 and envelope code 0 whose \<open>result\<close> is a
  mapping that lacks the requested field makes \<open>_process_response\<close> raise \<open>KeyError\<close>, an
  exception outside the client's own \<open>KarcherHomeException\<close> family: the lookup fails
  before the field decryption and the JSON parser run.
\<close>

theorem C10_missing_field_is_KeyError:
  assumes "status_code resp = 200"
    and "json_body resp = Inr (PDict kvs)"
    and "map_of kvs ''code'' = Some (PInt 0)"
    and "map_of kvs ''result'' = Some (PDict flds)"
    and "map_of flds p = None"
  shows "process_response env resp (Some p) = Inl (KeyError p)"
  using assms
  by (simp add: process_response_def check_code_zero has_key_def unwrap_result_def)

theorem C10_missing_field_is_KeyError_witness:
  "process_response ex_env
     \<lparr>status_code = 200,
      json_body = Inr (PDict [(''code'', PInt 0), (''result'', PDict [(''other'', PStr ''x'')])]),
      content = []\<rparr> (Some ''domain'')
   = Inl (KeyError ''domain'')"
  using C10_missing_field_is_KeyError
    [of "\<lparr>status_code = 200,
      json_body = Inr (PDict [(''code'', PInt 0), (''result'', PDict [(''other'', PStr ''x'')])]),
      content = []\<rparr>" "[(''code'', PInt 0), (''result'', PDict [(''other'', PStr ''x'')])]"
      "[(''other'', PStr ''x'')]" "''domain''" ex_env]
  by simp

section \<open>Login and logout\<close>

text \<open>
  Claim C8. When the username is not an email address, \<open>login\<close> sends one \<open>POST\<close> to the
  login endpoint whose body carries, as \<open>username\<close>, the field encryption of \<open>86-\<close>
  followed by the username, and, as \<open>password\<close>, the field encryption of the password.
\<close>

theorem C8_login_username_prefixed_and_encrypted:
  assumes "\<not> is_email env username"
  shows "\<exists>rq kvs. sent (snd (login env self username password rid w)) = sent w @ [rq]
      \<and> rq_method rq = ''POST''
      \<and> rq_url rq = base_url self @ ''/user-center/auth/login''
      \<and> rq_json rq = Some (PDict kvs)
      \<and> map_of kvs ''username'' = Some (PStr (encrypt env (''86-'' @ username)))
      \<and> map_of kvs ''password'' = Some (PStr (encrypt env password))"
proof -
  let ?body = "login_body env self (''86-'' @ username) password (login_register_id env rid)"
  let ?kw = "no_kwargs\<lparr>kw_json := Some ?body\<rparr>"
  obtain kvs where kvs: "?body = PDict kvs"
    "map_of kvs ''username'' = Some (PStr (encrypt env (''86-'' @ username)))"
    "map_of kvs ''password'' = Some (PStr (encrypt env password))"
    "kvs \<noteq> []"
    by (simp add: login_body_def)
  have "or_empty_dict (kw_json ?kw) = PDict kvs"
    using kvs(1,4) by simp
  from request_POST_dict [OF this, of env self None "''/user-center/auth/login''" w]
  obtain rq where rq: "request env self None ''POST'' ''/user-center/auth/login'' ?kw w
      = (transport env rq, w\<lparr>sent := sent w @ [rq]\<rparr>)"
    "rq_method rq = ''POST''" "rq_url rq = base_url self @ ''/user-center/auth/login''"
    "rq_json rq = Some (PDict kvs)"
    by blast
  have "sent (snd (login env self username password rid w)) = sent w @ [rq]"
    using assms rq(1) by (simp add: login_def login_username_def)
  with rq(2-4) kvs(2,3) show ?thesis
    by blast
qed

theorem C8_login_username_prefixed_and_encrypted_witness:
  "\<not> is_email ex_env ''12345''
   \<and> (\<exists>rq kvs. sent (snd (login ex_env ex_client ''12345'' ''secret'' None ex_world)) = [rq]
      \<and> rq_json rq = Some (PDict kvs)
      \<and> map_of kvs ''username'' = Some (PStr (encrypt ex_env ''86-12345''))
      \<and> map_of kvs ''password'' = Some (PStr (encrypt ex_env ''secret'')))"
proof -
  have h: "\<not> is_email ex_env ''12345''"
    by (simp add: ex_env_def)
  show ?thesis
    using h C8_login_username_prefixed_and_encrypted [OF h, of ex_client "''secret''" None ex_world]
    by (auto simp add: ex_world_def)
qed

text \<open>
  Claim C7. \<open>logout\<close> on a session whose auth token or user id is empty resets the
  session and returns with the network as it was: no request is sent. On an authorized
  session it sends one \<open>POST\<close> to the logout endpoint. A session that was reset has an
  empty auth token and an empty user id.
\<close>

theorem C7_logout_on_empty_session:
  "(auth_token s = [] \<or> user_id s = [] \<longrightarrow>
       logout env self (Some s) w = (Inr (), Some (reset s), w))
   \<and> (auth_token s \<noteq> [] \<and> user_id s \<noteq> [] \<longrightarrow>
       (\<exists>rq. sent (snd (snd (logout env self (Some s) w))) = sent w @ [rq]
          \<and> rq_method rq = ''POST'' \<and> rq_url rq = base_url self @ ''/user-center/auth/logout''))
   \<and> auth_token (reset s) = [] \<and> user_id (reset s) = []"
proof (intro conjI impI)
  assume "auth_token s = [] \<or> user_id s = []"
  then show "logout env self (Some s) w = (Inr (), Some (reset s), w)"
    by (auto simp add: logout_def)
next
  assume a: "auth_token s \<noteq> [] \<and> user_id s \<noteq> []"
  have "or_empty_dict (kw_json no_kwargs) = PDict []"
    by (simp add: no_kwargs_def)
  from request_POST_dict [OF this, of env self "Some s" "''/user-center/auth/logout''" w]
  obtain rq where rq: "request env self (Some s) ''POST'' ''/user-center/auth/logout'' no_kwargs w
      = (transport env rq, w\<lparr>sent := sent w @ [rq]\<rparr>)"
    "rq_method rq = ''POST''" "rq_url rq = base_url self @ ''/user-center/auth/logout''"
    by blast
  have "sent (snd (snd (logout env self (Some s) w))) = sent w @ [rq]"
    using a rq(1) by (simp add: logout_def split: sum.splits)
  with rq(2,3) show "\<exists>rq. sent (snd (snd (logout env self (Some s) w))) = sent w @ [rq]
          \<and> rq_method rq = ''POST'' \<and> rq_url rq = base_url self @ ''/user-center/auth/logout''"
    by blast
next
  show "auth_token (reset s) = []" by (simp add: reset_def)
next
  show "user_id (reset s) = []" by (simp add: reset_def)
qed

theorem C7_logout_on_empty_session_witness:
  "logout ex_env ex_client (Some empty_session) ex_world = (Inr (), Some empty_session, ex_world)
   \<and> (\<exists>rq. sent (snd (snd (logout ex_env ex_client (Some ex_session) ex_world))) = [rq]
          \<and> rq_method rq = ''POST'' \<and> rq_url rq = ''https://api/user-center/auth/logout'')"
  using C7_logout_on_empty_session [of empty_session ex_env ex_client ex_world]
    C7_logout_on_empty_session [of ex_session ex_env ex_client ex_world]
  by (simp add: empty_session_def ex_session_def reset_def ex_world_def ex_client_def)

section \<open>Map retrieval\<close>

text \<open>
  Claim C9. \<open>get_map_data\<close> has no local authorization check: for every session object,
  also one with an empty auth token or user id, it sends the signed \<open>POST\<close> to the
  storage endpoint, with the access body and the signature over auth token, timestamp,
  nonce and the canonical body. \<open>get_devices\<close> with such a session is rejected locally.
\<close>

theorem C9_map_request_sent_without_local_check:
  "(\<exists>rq. sent (snd (get_map_data env self (Some s) dev m w)) = sent w @ [rq]
      \<and> rq_method rq = ''POST''
      \<and> rq_url rq = base_url self @ ''/storage-management/storage/aws/getAccessUrl''
      \<and> rq_json rq = Some (access_body env s dev m)
      \<and> map_of (rq_headers rq) ''sign'' = Some (md5 env
           (auth_token s @ str_int (get_timestamp env) @ get_nonce env
              @ sign_fields [] [(''dir'', PStr (mapDir env dev m)), (''countryCode'', get_country_code s),
                   (''serviceType'', PInt 2), (''tenantId'', PStr (TENANT_ID env))])))
   \<and> (auth_token s = [] \<or> user_id s = [] \<longrightarrow>
        get_devices env self (Some s) w = (Inl (KarcherHomeAccessDenied ''Not authorized''), w))"
proof -
  let ?kvs = "[(''dir'', PStr (mapDir env dev m)), (''countryCode'', get_country_code s),
                   (''serviceType'', PInt 2), (''tenantId'', PStr (TENANT_ID env))]"
  let ?kw = "no_kwargs\<lparr>kw_json := Some (access_body env s dev m)\<rparr>"
  have "or_empty_dict (kw_json ?kw) = PDict ?kvs"
    by (simp add: access_body_def)
  from request_POST_dict [OF this, of env self "Some s" "''/storage-management/storage/aws/getAccessUrl''" w]
  obtain rq where rq: "request env self (Some s) ''POST'' ''/storage-management/storage/aws/getAccessUrl'' ?kw w
      = (transport env rq, w\<lparr>sent := sent w @ [rq]\<rparr>)"
    "rq_method rq = ''POST''" "rq_url rq = base_url self @ ''/storage-management/storage/aws/getAccessUrl''"
    "rq_json rq = Some (PDict ?kvs)"
    "map_of (rq_headers rq) ''sign'' = Some (signature env (Some s) (sign_fields [] ?kvs))"
    by blast
  have "sent (snd (get_map_data env self (Some s) dev m w)) = sent w @ [rq]"
    using rq(1) by (simp add: get_map_data_def split: sum.splits)
  moreover have "signature env (Some s) (sign_fields [] ?kvs)
      = md5 env (auth_token s @ str_int (get_timestamp env) @ get_nonce env @ sign_fields [] ?kvs)"
    by (simp add: signature_def auth_of_def)
  moreover have "auth_token s = [] \<or> user_id s = [] \<longrightarrow>
        get_devices env self (Some s) w = (Inl (KarcherHomeAccessDenied ''Not authorized''), w)"
    by (auto simp add: get_devices_def not_authorized_def)
  ultimately show ?thesis
    using rq(2-5) by (auto simp add: access_body_def)
qed

theorem C9_map_request_sent_without_local_check_witness:
  "(\<exists>rq. sent (snd (get_map_data ex_env ex_client (Some empty_session) ex_device 1 ex_world)) = [rq]
      \<and> rq_method rq = ''POST''
      \<and> rq_url rq = ''https://api/storage-management/storage/aws/getAccessUrl'')
   \<and> get_devices ex_env ex_client (Some empty_session) ex_world
       = (Inl (KarcherHomeAccessDenied ''Not authorized''), ex_world)"
  using C9_map_request_sent_without_local_check [of ex_env ex_client empty_session ex_device 1 ex_world]
  by (auto simp add: ex_world_def ex_client_def empty_session_def)

text \<open>
  Claim C5, as the code has it. For an access response that carries a \<open>url\<close> field: when
  it also carries a non-empty textual \<open>cdnDomain\<close> and a textual \<open>dir\<close>, the download URL
  is \<open>https://\<close>, the CDN domain, a slash and the directory; when \<open>cdnDomain\<close> is absent or
  empty, the download URL is the \<open>url\<close> field unchanged.
\<close>

theorem C5_download_url_resolution:
  assumes "map_of kvs ''url'' = Some u"
  shows "(map_of kvs ''cdnDomain'' = Some (PStr c) \<and> c \<noteq> [] \<and> map_of kvs ''dir'' = Some (PStr p) \<longrightarrow>
            download_url (PDict kvs) = Inr (PStr (''https://'' @ c @ ''/'' @ p)))
       \<and> (map_of kvs ''cdnDomain'' = None \<or> map_of kvs ''cdnDomain'' = Some (PStr []) \<longrightarrow>
            download_url (PDict kvs) = Inr u)"
  using assms by (auto simp add: download_url_def)

theorem C5_download_url_resolution_witness:
  "download_url (PDict [(''url'', PStr ''https://s/x''), (''cdnDomain'', PStr ''cdn.example''), (''dir'', PStr ''a/b'')])
     = Inr (PStr ''https://cdn.example/a/b'')
   \<and> download_url (PDict [(''url'', PStr ''https://s/x'')]) = Inr (PStr ''https://s/x'')
   \<and> download_url (PDict [(''url'', PStr ''https://s/x''), (''cdnDomain'', PStr [])]) = Inr (PStr ''https://s/x'')"
  using C5_download_url_resolution
      [of "[(''url'', PStr ''https://s/x''), (''cdnDomain'', PStr ''cdn.example''), (''dir'', PStr ''a/b'')]"
          "PStr ''https://s/x''" "''cdn.example''" "''a/b''"]
    C5_download_url_resolution [of "[(''url'', PStr ''https://s/x'')]" "PStr ''https://s/x''"]
    C5_download_url_resolution [of "[(''url'', PStr ''https://s/x''), (''cdnDomain'', PStr [])]" "PStr ''https://s/x''"]
  by simp

text \<open>
  Claim C5 as stated fails. An access response with a non-empty \<open>cdnDomain\<close> and a \<open>dir\<close>
  but no \<open>url\<close> field resolves to no URL: \<open>d['url']\<close> is read first and raises \<open>KeyError\<close>.
\<close>

theorem C5_missing_url_counterexample:
  "download_url (PDict [(''cdnDomain'', PStr ''cdn.example''), (''dir'', PStr ''a/b'')]) = Inl (KeyError ''url'')
   \<and> download_url (PDict [(''cdnDomain'', PStr ''cdn.example''), (''dir'', PStr ''a/b'')])
       \<noteq> Inr (PStr ''https://cdn.example/a/b'')"
  by (simp add: download_url_def)

text \<open>The URL resolved this way is the one \<open>get_map_data\<close> downloads.\<close>

lemma get_map_data_downloads_resolved_url:
  assumes "fst (request env self (Some s) ''POST'' ''/storage-management/storage/aws/getAccessUrl''
                  (no_kwargs\<lparr>kw_json := Some (access_body env s dev m)\<rparr>) w) = Inr resp"
    and "process_response env resp None = Inr d"
    and "download_url d = Inr url"
  shows "downloaded (snd (get_map_data env self (Some s) dev m w)) = downloaded w @ [url]"
proof -
  obtain w1 where w1: "request env self (Some s) ''POST'' ''/storage-management/storage/aws/getAccessUrl''
      (no_kwargs\<lparr>kw_json := Some (access_body env s dev m)\<rparr>) w = (Inr resp, w1)"
    using assms(1) by (metis prod.collapse)
  then have "downloaded w1 = downloaded w"
    by (auto simp add: request_def split: sum.splits)
  with w1 show ?thesis
    using assms(2,3) by (simp add: get_map_data_def fetch_map_def download_def)
qed

text \<open>
  Claim C4. When the access request, the download and the decryption succeed, the
  result of \<open>get_map_data\<close> is decided by the channel index alone: for channel 1 or 2 it
  is what the binary map decoder makes of the decrypted bytes, a floor map; for any other
  channel it is what \<open>json.loads\<close> makes of them, generic data and never a floor map.
\<close>

theorem C4_map_channel_fork:
  assumes "fst (request env self (Some s) ''POST'' ''/storage-management/storage/aws/getAccessUrl''
                  (no_kwargs\<lparr>kw_json := Some (access_body env s dev m)\<rparr>) w) = Inr resp"
    and "process_response env resp None = Inr d"
    and "download_url d = Inr url"
    and "fetch env url = Inr r"
    and "status_code r = 200"
    and "decrypt_map env (sn dev) (mac dev) (product_id dev) (content r) = Inr data"
  shows "(m = 1 \<or> m = 2 \<longrightarrow>
            fst (get_map_data env self (Some s) dev m w)
              = (case Map_parse env data of Inl e \<Rightarrow> Inl e | Inr fm \<Rightarrow> Inr (FloorMap fm)))
       \<and> (m \<noteq> 1 \<and> m \<noteq> 2 \<longrightarrow>
            fst (get_map_data env self (Some s) dev m w)
              = (case json_loads env data of Inl e \<Rightarrow> Inl e | Inr v \<Rightarrow> Inr (JsonData v))
            \<and> (\<forall>fm. fst (get_map_data env self (Some s) dev m w) \<noteq> Inr (FloorMap fm)))"
proof -
  obtain w1 where "request env self (Some s) ''POST'' ''/storage-management/storage/aws/getAccessUrl''
      (no_kwargs\<lparr>kw_json := Some (access_body env s dev m)\<rparr>) w = (Inr resp, w1)"
    using assms(1) by (metis prod.collapse)
  then have eq: "fst (get_map_data env self (Some s) dev m w) = decode_map env m data"
    using assms(2-6) by (simp add: get_map_data_def fetch_map_def download_def)
  show ?thesis
    unfolding eq
    by (auto simp add: decode_map_def split: sum.splits)
qed

theorem C4_map_channel_fork_witness:
  "fst (get_map_data ex_env ex_client (Some ex_session) ex_device 1 ex_world) = Inr (FloorMap 4)
   \<and> fst (get_map_data ex_env ex_client (Some ex_session) ex_device 2 ex_world) = Inr (FloorMap 4)
   \<and> fst (get_map_data ex_env ex_client (Some ex_session) ex_device 3 ex_world)
       = Inr (JsonData (PDict [(''text'', PStr ''blob'')]))"
proof -
  have q: "fst (request ex_env ex_client (Some ex_session) ''POST'' url kw ex_world) = Inr ex_response"
    for url kw
    by (simp add: request_def build_request_def sign_data_POST ex_env_def split: pyval.splits)
  have p: "process_response ex_env ex_response None = Inr (PDict [(''url'', PStr ''https://s/x'')])"
    by (simp add: process_response_def ex_response_def check_code_zero has_key_def unwrap_result_def)
  have u: "download_url (PDict [(''url'', PStr ''https://s/x'')]) = Inr (PStr ''https://s/x'')"
    by (simp add: download_url_def)
  have f: "fetch ex_env (PStr ''https://s/x'') = Inr ex_response"
    by (simp add: ex_env_def)
  have c: "status_code ex_response = 200"
    by (simp add: ex_response_def)
  have k: "decrypt_map ex_env (sn ex_device) (mac ex_device) (product_id ex_device) (content ex_response)
      = Inr ''blob''"
    by (simp add: ex_env_def ex_response_def)
  have m: "Map_parse ex_env ''blob'' = Inr 4"
    "json_loads ex_env ''blob'' = Inr (PDict [(''text'', PStr ''blob'')])"
    by (simp_all add: ex_env_def)
  show ?thesis
    using C4_map_channel_fork [OF q p u f c k, of 1]
      C4_map_channel_fork [OF q p u f c k, of 2]
      C4_map_channel_fork [OF q p u f c k, of 3]
    by (simp add: m)
qed

end
